theory Spec2Isabelle
  imports Main "HOL-Library.Sublist"
begin

chapter \<open>The model\<close>

section \<open>Values shared by the adapters and the sync jobs\<close>

text \<open>
  Python strings are modelled as \<^typ>\<open>string\<close> (lists of 8-bit characters). The
  transcripts and OID strings the program handles are ASCII: the Telnet reader is opened with
  \<^verbatim>\<open>encoding='ascii', encoding_errors='ignore'\<close> and pysnmp prints numeric
  OIDs. JSON detail maps are association lists in insertion order, as Python dictionaries are.
\<close>

datatype jval = JStr string | JInt int

type_synonym json = "(string \<times> jval) list"

text \<open>
  The dictionaries the adapters return for one ONU. The SNMP correlators of Hioso and HSGQ GPON
  build \<^verbatim>\<open>{"identifier", "details"}\<close>; the interactive adapters and the HSGQ EPON
  correlator add \<^verbatim>\<open>"pon_interface"\<close> and \<^verbatim>\<open>"vendor_name"\<close>.
\<close>

record onu_ref =
  identifier' :: string
  details :: json

record onu_item = onu_ref +
  pon_interface :: string
  vendor_name :: string

text \<open>
  A row of the table \<^verbatim>\<open>onus\<close> (\<^verbatim>\<open>models.Onu\<close>). Timestamps are
  integers (seconds on the job's clock).
\<close>

record onu =
  id' :: nat
  olt_id :: nat
  identifier' :: string
  pon_interface :: string
  vendor_name :: string
  last_seen :: int
  details :: json
  details_snmp :: "json option"

text \<open>
  \<^verbatim>\<open>db.query(models.Onu).filter(models.Onu.identifier == identifier,
  models.Onu.olt_id == olt.id).first()\<close>: the first row of the table, in primary-key
  order, with the given device and identifier. The object it returns is the row itself, so an
  assignment to one of its attributes changes that row; \<open>first_update\<close> is that
  assignment.
\<close>

definition same_onu :: "nat \<Rightarrow> string \<Rightarrow> onu \<Rightarrow> bool" where
  "same_onu dev ident r \<longleftrightarrow> onu.identifier' r = ident \<and> olt_id r = dev"

definition query_first :: "nat \<Rightarrow> string \<Rightarrow> onu list \<Rightarrow> onu option" where
  "query_first dev ident rows = find (same_onu dev ident) rows"

fun first_update :: "('a \<Rightarrow> bool) \<Rightarrow> ('a \<Rightarrow> 'a) \<Rightarrow> 'a list \<Rightarrow> 'a list" where
  "first_update P f [] = []"
| "first_update P f (r # rs) = (if P r then f r # rs else r # first_update P f rs)"

section \<open>The SNMP sync loop (tasks.py, run\_snmp\_sync, lines 113--124)\<close>

text \<open>
  One iteration for \<^verbatim>\<open>onu_item\<close>, at clock reading \<open>t\<close>: a row that exists gets
  \<^verbatim>\<open>details_snmp\<close> and \<^verbatim>\<open>last_seen\<close> assigned and counts as
  updated; otherwise a warning is logged and nothing is written.
\<close>

definition snmp_sync_item ::
  "nat \<Rightarrow> int \<Rightarrow> onu list \<times> nat \<Rightarrow> 'a onu_ref_scheme \<Rightarrow> onu list \<times> nat" where
  "snmp_sync_item dev t st onu_item =
     (case st of (rows, updated_count) \<Rightarrow>
        (case query_first dev (onu_ref.identifier' onu_item) rows of
           Some db_onu \<Rightarrow>
             (first_update (same_onu dev (onu_ref.identifier' onu_item))
                (\<lambda>r. r\<lparr>details_snmp := Some (onu_ref.details onu_item), last_seen := t\<rparr>) rows,
              Suc updated_count)
         | None \<Rightarrow> (rows, updated_count)))"

text \<open>
  The loop over \<^verbatim>\<open>onus_from_snmp\<close>. \<open>clock k\<close> is what
  \<^verbatim>\<open>datetime.now(wib_timezone)\<close> reads while item number \<open>k\<close> is handled.
\<close>

fun snmp_sync_loop ::
  "nat \<Rightarrow> (nat \<Rightarrow> int) \<Rightarrow> nat \<Rightarrow> onu list \<times> nat \<Rightarrow> 'a onu_ref_scheme list \<Rightarrow> onu list \<times> nat" where
  "snmp_sync_loop dev clock k st [] = st"
| "snmp_sync_loop dev clock k st (onu_item # rest) =
     snmp_sync_loop dev clock (Suc k) (snmp_sync_item dev (clock k) st onu_item) rest"



section \<open>Strings\<close>

text \<open>\<^verbatim>\<open>str.lower()\<close> on ASCII text, and \<^verbatim>\<open>str(n)\<close> for a count.\<close>

definition lower_char :: "char \<Rightarrow> char" where
  "lower_char c =
     (case map_of (zip ''ABCDEFGHIJKLMNOPQRSTUVWXYZ'' ''abcdefghijklmnopqrstuvwxyz'') c of
        Some l \<Rightarrow> l
      | None \<Rightarrow> c)"

definition lower :: "string \<Rightarrow> string" where
  "lower s = map lower_char s"

fun str_of_nat :: "nat \<Rightarrow> string" where
  "str_of_nat n =
     (if n < 10 then [''0123456789'' ! n]
      else str_of_nat (n div 10) @ [''0123456789'' ! (n mod 10)])"

text \<open>The single quote, which a string literal cannot hold.\<close>

definition sq :: string where
  "sq = [CHR 0x27]"

text \<open>\<^verbatim>\<open>str(x)\<close> of a nullable string column inside an f-string.\<close>

definition str_of_opt :: "string option \<Rightarrow> string" where
  "str_of_opt x = (case x of None \<Rightarrow> ''None'' | Some s \<Rightarrow> s)"

text \<open>\<^verbatim>\<open>d[k] = v\<close> on a dictionary: an existing key keeps its place.\<close>

fun dict_set :: "'k \<Rightarrow> 'v \<Rightarrow> ('k \<times> 'v) list \<Rightarrow> ('k \<times> 'v) list" where
  "dict_set k v [] = [(k, v)]"
| "dict_set k v (p # ps) = (if fst p = k then (k, v) # ps else p # dict_set k v ps)"

section \<open>Exceptions, payloads and the database\<close>

text \<open>An exception is its class name (\<^verbatim>\<open>type(e).__name__\<close>) and its message
  (\<^verbatim>\<open>str(e)\<close>).\<close>

datatype exn = Exn string string

fun exn_type :: "exn \<Rightarrow> string" where
  "exn_type (Exn ty msg) = ty"

fun exn_str :: "exn \<Rightarrow> string" where
  "exn_str (Exn ty msg) = msg"

text \<open>What a job returns: \<^verbatim>\<open>{"message": ...}\<close> or \<^verbatim>\<open>{"error": ...}\<close>.\<close>

datatype payload = Message string | Error string

text \<open>
  The tables the jobs read (database/models.py), with the columns the jobs use. The columns of
  \<^verbatim>\<open>OLT\<close> that are only handed to an adapter's constructor (credentials, ports,
  community, timing) reach the model through the adapter, which is a function of the row.
  \<^verbatim>\<open>olt.vendor\<close> is the relationship over the nullable column
  \<^verbatim>\<open>vendor_id\<close>: it is \<^verbatim>\<open>None\<close> when the column is null.
\<close>

record vendor =
  id' :: nat
  name :: string

record olt =
  id' :: nat
  ip :: string
  olt_type :: "string option"
  vendor :: "vendor option"

record oid_row =
  oid :: string
  fungsi :: string
  model :: "string option"
  vendor_id :: "nat option"

record db =
  vendor_rows :: "vendor list"
  olt_rows :: "olt list"
  oid_rows :: "oid_row list"
  onu_rows :: "onu list"

text \<open>
  What \<^verbatim>\<open>get_onus()\<close> of an adapter returns: \<^verbatim>\<open>None\<close> or a dictionary
  that may hold the keys \<^verbatim>\<open>"error"\<close>, \<^verbatim>\<open>"count"\<close> and
  \<^verbatim>\<open>"onus"\<close>. The adapters of this repository return
  \<^verbatim>\<open>{"error": msg}\<close> or \<^verbatim>\<open>{"count": n, "onus": [...]}\<close>.
\<close>

record fetch_dict =
  error :: "string option"
  count :: "nat option"
  onus :: "onu_item list option"

type_synonym onu_data = "fetch_dict option"

text \<open>\<^verbatim>\<open>not onu_data\<close> for a dictionary: it has no key.\<close>

definition dict_empty :: "fetch_dict \<Rightarrow> bool" where
  "dict_empty d \<longleftrightarrow> error d = None \<and> count d = None \<and> onus d = None"

text \<open>
  Everything outside a job that decides its run. \<open>autoflush\<close> is the setting of the session
  factory \<^verbatim>\<open>database.SessionLocal\<close>, whose module is not among the sources: with it a
  query first writes the pending inserts, without it they stay invisible to queries until the
  commit. \<open>now k\<close> is the clock while item \<open>k\<close> is handled. \<open>commit_error\<close> is the exception
  \<^verbatim>\<open>db.commit()\<close> raises, if any. Each adapter is the outcome of
  \<^verbatim>\<open>asyncio.run(service.get_onus())\<close> (or \<^verbatim>\<open>get_onus_snmp()\<close>) for
  the service built from the device row (and, for SNMP, from the OID table): an exception or a
  returned value. \<open>crud_error\<close> is the exception the OID query inside
  \<^verbatim>\<open>_load_oids\<close> raises, if any.
\<close>

record sync_env =
  autoflush :: bool
  now :: "nat \<Rightarrow> int"
  commit_error :: "exn option"
  hsgq_epon_ssh :: "olt \<Rightarrow> exn + onu_data"
  hsgq_ssh :: "olt \<Rightarrow> exn + onu_data"
  hioso_telnet :: "olt \<Rightarrow> exn + onu_data"
  hioso_snmp :: "olt \<Rightarrow> (string \<times> string) list \<Rightarrow> exn + onu_ref list"
  hsgq_snmp :: "olt \<Rightarrow> (string \<times> string) list \<Rightarrow> exn + onu_ref list"
  hsgq_epon_snmp :: "olt \<Rightarrow> (string \<times> string) list \<Rightarrow> exn + onu_data"
  crud_error :: "exn option"

text \<open>The exceptions Python raises when an attribute or a membership test meets \<^verbatim>\<open>None\<close>.\<close>

definition none_has_no_attr :: "string \<Rightarrow> exn" where
  "none_has_no_attr a =
     Exn ''AttributeError'' (sq @ ''NoneType'' @ sq @ '' object has no attribute '' @ sq @ a @ sq)"

definition none_not_iterable :: exn where
  "none_not_iterable =
     Exn ''TypeError'' (''argument of type '' @ sq @ ''NoneType'' @ sq @ '' is not iterable'')"

section \<open>The interactive sync job (tasks.py, run\_ssh\_telnet\_sync)\<close>

text \<open>The primary key the database gives an inserted row.\<close>

definition next_id :: "onu list \<Rightarrow> nat" where
  "next_id rows = Suc (foldr max (map onu.id' rows) 0)"

text \<open>
  One iteration of the loop of lines 56--66. The session holds the rows the database shows
  (\<open>rows\<close>) and the objects added but not yet written (\<open>pending\<close>). The query flushes first
  when the session autoflushes. A row found is assigned \<^verbatim>\<open>details\<close> and
  \<^verbatim>\<open>last_seen\<close>; otherwise a new object is added.
\<close>

definition upsert_item ::
  "bool \<Rightarrow> nat \<Rightarrow> int \<Rightarrow> onu list \<times> onu list \<times> nat \<Rightarrow> onu_item \<Rightarrow> onu list \<times> onu list \<times> nat" where
  "upsert_item flush dev t st onu_item =
     (case st of (rows0, pending0, synced_count) \<Rightarrow>
        let rows = (if flush then rows0 @ pending0 else rows0);
            pending = (if flush then [] else pending0)
        in (case query_first dev (onu_ref.identifier' onu_item) rows of
              Some db_onu \<Rightarrow>
                (first_update (same_onu dev (onu_ref.identifier' onu_item))
                   (\<lambda>r. r\<lparr>onu.details := onu_ref.details onu_item, last_seen := t\<rparr>) rows,
                 pending, Suc synced_count)
            | None \<Rightarrow>
                (rows,
                 pending @
                   [\<lparr>onu.id' = next_id (rows @ pending), olt_id = dev,
                     identifier' = onu_ref.identifier' onu_item,
                     pon_interface = onu_item.pon_interface onu_item,
                     vendor_name = onu_item.vendor_name onu_item,
                     last_seen = t, details = onu_ref.details onu_item, details_snmp = None\<rparr>],
                 Suc synced_count)))"

fun upsert_loop ::
  "bool \<Rightarrow> nat \<Rightarrow> (nat \<Rightarrow> int) \<Rightarrow> nat \<Rightarrow> onu list \<times> onu list \<times> nat \<Rightarrow> onu_item list \<Rightarrow>
   onu list \<times> onu list \<times> nat" where
  "upsert_loop flush dev clock k st [] = st"
| "upsert_loop flush dev clock k st (onu_item # rest) =
     upsert_loop flush dev clock (Suc k) (upsert_item flush dev (clock k) st onu_item) rest"

text \<open>The table after \<^verbatim>\<open>db.commit()\<close>: the pending objects are written after the rows.\<close>

definition committed :: "onu list \<times> onu list \<times> nat \<Rightarrow> onu list" where
  "committed st = (case st of (rows, pending, n) \<Rightarrow> rows @ pending)"

text \<open>The loop and the commit on a table, for a fetched list: what one successful run leaves.\<close>

definition interactive_sync :: "bool \<Rightarrow> nat \<Rightarrow> (nat \<Rightarrow> int) \<Rightarrow> onu list \<Rightarrow> onu_item list \<Rightarrow> onu list" where
  "interactive_sync flush dev clock rows items =
     committed (upsert_loop flush dev clock 0 (rows, [], 0) items)"

text \<open>
  The job, in the order of the source. Each part returns the payload, or the exception that
  leaves the function, and the database as the job leaves it: an early return, an exception
  caught by the handler (which rolls back) and a failed commit all leave the tables as they
  were.

  Lines 36--46: the adapter for the device's vendor and model, and what its
  \<^verbatim>\<open>get_onus()\<close> does; \<^verbatim>\<open>None\<close> stands for the branch that returns
  "not implemented".
\<close>

definition interactive_fetch :: "sync_env \<Rightarrow> olt \<Rightarrow> string \<Rightarrow> (exn + onu_data) option" where
  "interactive_fetch env olt vendor_name' =
     (if vendor_name' = ''hsgq'' then
        Some (if olt_type olt = Some ''epon'' then hsgq_epon_ssh env olt else hsgq_ssh env olt)
      else if vendor_name' = ''hioso'' then Some (hioso_telnet env olt)
      else None)"

text \<open>Lines 48--69: the check of the fetched dictionary, the loop and the commit.\<close>

definition interactive_store :: "sync_env \<Rightarrow> db \<Rightarrow> olt \<Rightarrow> fetch_dict \<Rightarrow> (exn + payload) \<times> db" where
  "interactive_store env d olt onu_data =
     (if dict_empty onu_data \<or> error onu_data \<noteq> None then
        (Inr (Error (case error onu_data of
                       Some error_msg \<Rightarrow> error_msg
                     | None \<Rightarrow> ''Unknown error during sync'')), d)
      else
        let onus_from_olt = (case onus onu_data of Some l \<Rightarrow> l | None \<Rightarrow> []);
            st = upsert_loop (autoflush env) (olt.id' olt) (now env) 0 (onu_rows d, [], 0)
                   onus_from_olt
        in (case commit_error env of
              Some e \<Rightarrow> (Inr (Error (exn_str e)), d)
            | None \<Rightarrow>
                (Inr (Message (''Successfully synced '' @ str_of_nat (snd (snd st)) @
                               '' ONUs for OLT '' @ olt.ip olt)),
                 d\<lparr>onu_rows := committed st\<rparr>)))"

text \<open>Lines 35--73: the \<^verbatim>\<open>try\<close> block with its handler.\<close>

definition interactive_try :: "sync_env \<Rightarrow> db \<Rightarrow> olt \<Rightarrow> vendor \<Rightarrow> (exn + payload) \<times> db" where
  "interactive_try env d olt v =
     (case interactive_fetch env olt (lower (vendor.name v)) of
        None \<Rightarrow> (Inr (Error (''Sync not implemented for vendor: '' @ sq @ vendor.name v @ sq)), d)
      | Some (Inl e) \<Rightarrow> (Inr (Error (exn_str e)), d)
      | Some (Inr None) \<Rightarrow> (Inr (Error (exn_str (none_has_no_attr ''get''))), d)
      | Some (Inr (Some onu_data)) \<Rightarrow> interactive_store env d olt onu_data)"

text \<open>Lines 25--31 come before the \<^verbatim>\<open>try\<close>: the device lookup and
  \<^verbatim>\<open>olt.vendor.name.lower()\<close>, whose exception leaves the job.\<close>

definition run_ssh_telnet_sync :: "sync_env \<Rightarrow> db \<Rightarrow> nat \<Rightarrow> (exn + payload) \<times> db" where
  "run_ssh_telnet_sync env d olt_id' =
     (case find (\<lambda>x. olt.id' x = olt_id') (olt_rows d) of
        None \<Rightarrow> (Inr (Error (''OLT with id '' @ str_of_nat olt_id' @ '' not found.'')), d)
      | Some olt \<Rightarrow>
          (case olt.vendor olt of
             None \<Rightarrow> (Inl (none_has_no_attr ''name''), d)
           | Some v \<Rightarrow> interactive_try env d olt v))"

section \<open>The SNMP sync job (tasks.py, run\_snmp\_sync)\<close>

text \<open>\<^verbatim>\<open>{oid.fungsi: oid.oid for oid in rows}\<close>.\<close>

definition oids_dict_of :: "oid_row list \<Rightarrow> (string \<times> string) list" where
  "oids_dict_of rows = foldl (\<lambda>d r. dict_set (fungsi r) (oid r) d) [] rows"

text \<open>crud.py, \<^verbatim>\<open>get_oids_by_vendor_and_model\<close>.\<close>

definition get_oids_by_vendor_and_model :: "db \<Rightarrow> string \<Rightarrow> string \<Rightarrow> oid_row list" where
  "get_oids_by_vendor_and_model d vname m =
     (case find (\<lambda>v. vendor.name v = vname) (vendor_rows d) of
        None \<Rightarrow> []
      | Some v \<Rightarrow> filter (\<lambda>r. vendor_id r = Some (vendor.id' v) \<and> model r = Some m) (oid_rows d))"

text \<open>vendors/hsgq/epon\_snmp\_service.py: \<^verbatim>\<open>get_fallback_oids\<close> and
  \<^verbatim>\<open>_load_oids\<close>, which the constructor of the service calls.\<close>

definition get_fallback_oids :: "(string \<times> string) list" where
  "get_fallback_oids =
     [(''name'', ''1.3.6.1.4.1.50224.3.3.2.1.2''),
      (''tx_power'', ''1.3.6.1.4.1.50224.3.3.3.1.4''),
      (''rx_power'', ''1.3.6.1.4.1.50224.3.3.3.1.5''),
      (''status'', ''1.3.6.1.4.1.50224.3.3.2.1.8''),
      (''distance'', ''1.3.6.1.4.1.50224.3.3.2.1.15''),
      (''mac_address'', ''1.3.6.1.4.1.50224.3.3.2.1.7'')]"

definition load_oids :: "sync_env \<Rightarrow> db \<Rightarrow> (string \<times> string) list" where
  "load_oids env d =
     (case crud_error env of
        Some e \<Rightarrow> get_fallback_oids
      | None \<Rightarrow>
          let oid_records = get_oids_by_vendor_and_model d ''hsgq'' ''epon''
          in if oid_records = [] then get_fallback_oids else oids_dict_of oid_records)"

text \<open>The part of the job after the adapter has returned \<^verbatim>\<open>onus_from_snmp\<close>
  (lines 109--128).\<close>

definition snmp_store :: "sync_env \<Rightarrow> db \<Rightarrow> olt \<Rightarrow> onu_ref list \<Rightarrow> (exn + payload) \<times> db" where
  "snmp_store env d olt onus_from_snmp =
     (if onus_from_snmp = [] then
        (Inr (Message ''No ONUs found via SNMP or error in communication.''), d)
      else
        let st = snmp_sync_loop (olt.id' olt) (now env) 0 (onu_rows d, 0) onus_from_snmp
        in (case commit_error env of
              Some e \<Rightarrow> (Inr (Error (exn_str e)), d)
            | None \<Rightarrow>
                (Inr (Message (''Sync complete for OLT '' @ olt.ip olt @ '' via SNMP. Updated '' @
                               str_of_nat (snd st) @ '' ONUs.'')),
                 d\<lparr>onu_rows := fst st\<rparr>)))"

text \<open>
  Lines 93--107: the adapter for the device's vendor and model. The result is the list
  \<^verbatim>\<open>onus_from_snmp\<close>, or the payload of an early return, or of the handler when
  the adapter raises. The HSGQ EPON service loads its own OID table when it is built.
\<close>

definition snmp_fetch ::
  "sync_env \<Rightarrow> db \<Rightarrow> olt \<Rightarrow> string \<Rightarrow> (string \<times> string) list \<Rightarrow> payload + onu_ref list" where
  "snmp_fetch env d olt vendor_name' oids_dict =
     (if vendor_name' = ''hioso'' then
        (case hioso_snmp env olt oids_dict of
           Inl e \<Rightarrow> Inl (Error (exn_str e))
         | Inr l \<Rightarrow> Inr l)
      else if vendor_name' = ''hsgq'' then
        (if olt_type olt = Some ''epon'' then
           (case hsgq_epon_snmp env olt (load_oids env d) of
              Inl e \<Rightarrow> Inl (Error (exn_str e))
            | Inr None \<Rightarrow> Inl (Error (exn_str none_not_iterable))
            | Inr (Some onu_data) \<Rightarrow>
                (case error onu_data of
                   Some msg \<Rightarrow> Inl (Error msg)
                 | None \<Rightarrow>
                     Inr (map onu_ref.truncate (case onus onu_data of Some l \<Rightarrow> l | None \<Rightarrow> []))))
         else
           (case hsgq_snmp env olt oids_dict of
              Inl e \<Rightarrow> Inl (Error (exn_str e))
            | Inr l \<Rightarrow> Inr l))
      else Inl (Error (''SNMP sync not implemented for vendor: '' @ sq @ vendor_name' @ sq)))"

text \<open>Lines 87--132: the \<^verbatim>\<open>try\<close> block with its handler. The OID catalog of the
  device's vendor and model is read first; an empty one ends the job unless the model is
  \<^verbatim>\<open>'epon'\<close>.\<close>

definition snmp_try :: "sync_env \<Rightarrow> db \<Rightarrow> olt \<Rightarrow> vendor \<Rightarrow> (exn + payload) \<times> db" where
  "snmp_try env d olt v =
     (let vendor_name' = lower (vendor.name v);
          db_oids = filter (\<lambda>r. vendor_id r = Some (vendor.id' v) \<and> model r = olt_type olt)
                      (oid_rows d)
      in if db_oids = [] \<and> olt_type olt \<noteq> Some ''epon'' then
           (Inr (Error (''SNMP OIDs not found for vendor: '' @ vendor_name' @
                        '' and model: '' @ str_of_opt (olt_type olt))), d)
         else
           (case snmp_fetch env d olt vendor_name' (oids_dict_of db_oids) of
              Inl p \<Rightarrow> (Inr p, d)
            | Inr onus_from_snmp \<Rightarrow> snmp_store env d olt onus_from_snmp))"

definition run_snmp_sync :: "sync_env \<Rightarrow> db \<Rightarrow> nat \<Rightarrow> (exn + payload) \<times> db" where
  "run_snmp_sync env d olt_id' =
     (case find (\<lambda>x. olt.id' x = olt_id') (olt_rows d) of
        None \<Rightarrow> (Inr (Error (''OLT with id '' @ str_of_nat olt_id' @ '' not found.'')), d)
      | Some olt \<Rightarrow>
          (case olt.vendor olt of
             None \<Rightarrow> (Inl (none_has_no_attr ''name''), d)
           | Some v \<Rightarrow> snmp_try env d olt v))"

section \<open>Sample data for the concrete checks\<close>

definition sample_olt :: olt where
  "sample_olt = \<lparr>olt.id' = 1, ip = ''10.0.0.1'', olt_type = Some ''epon'',
                  vendor = Some \<lparr>vendor.id' = 1, name = ''Hioso''\<rparr>\<rparr>"

definition sample_db :: db where
  "sample_db = \<lparr>vendor_rows = [\<lparr>vendor.id' = 1, name = ''Hioso''\<rparr>], olt_rows = [sample_olt],
                 oid_rows = [], onu_rows = []\<rparr>"

definition sample_item :: onu_item where
  "sample_item = \<lparr>onu_ref.identifier' = ''98c7a45e30b8'', onu_ref.details = [(''status'', JStr ''Up'')],
                   onu_item.pon_interface = ''1/1:3'', onu_item.vendor_name = ''hioso''\<rparr>"

definition sample_env :: sync_env where
  "sample_env = \<lparr>autoflush = True, now = (\<lambda>k. 100 + int k), commit_error = None,
     hsgq_epon_ssh = (\<lambda>x. Inr None), hsgq_ssh = (\<lambda>x. Inr None),
     hioso_telnet = (\<lambda>x. Inr (Some \<lparr>error = None, count = Some 1, onus = Some [sample_item]\<rparr>)),
     hioso_snmp = (\<lambda>x oids. Inr []), hsgq_snmp = (\<lambda>x oids. Inr []),
     hsgq_epon_snmp = (\<lambda>x oids. Inr None), crud_error = None\<rparr>"


definition sample_hsgq :: vendor where
  "sample_hsgq = \<lparr>vendor.id' = 2, name = ''HSGQ''\<rparr>"

definition sample_hsgq_db :: db where
  "sample_hsgq_db =
     \<lparr>vendor_rows = [sample_hsgq],
      olt_rows = [\<lparr>olt.id' = 2, ip = ''10.0.0.2'', olt_type = Some ''gpon'', vendor = Some sample_hsgq\<rparr>,
                  \<lparr>olt.id' = 3, ip = ''10.0.0.3'', olt_type = Some ''epon'', vendor = Some sample_hsgq\<rparr>],
      oid_rows = [], onu_rows = []\<rparr>"

definition sample_hsgq_env :: sync_env where
  "sample_hsgq_env = \<lparr>autoflush = True, now = (\<lambda>k. 100 + int k), commit_error = None,
     hsgq_epon_ssh = (\<lambda>x. Inr None), hsgq_ssh = (\<lambda>x. Inr None), hioso_telnet = (\<lambda>x. Inr None),
     hioso_snmp = (\<lambda>x oids. Inr []), hsgq_snmp = (\<lambda>x oids. Inr []),
     hsgq_epon_snmp = (\<lambda>x oids.
        if oids = get_fallback_oids
        then Inr (Some \<lparr>error = None, count = Some 0, onus = Some []\<rparr>)
        else Inl (Exn ''ValueError'' ''no OID table'')),
     crud_error = None\<rparr>"

section \<open>Comparing tables up to the timestamp\<close>

text \<open>Two rows agree on every column but \<^verbatim>\<open>last_seen\<close> exactly when their images
  under \<open>forget_seen\<close> are equal. \<open>assign_details\<close> is the assignment of the interactive loop
  without the timestamp.\<close>

definition forget_seen :: "onu \<Rightarrow> onu" where
  "forget_seen r = r\<lparr>last_seen := 0\<rparr>"


section \<open>More string operations\<close>

text \<open>
  \<^verbatim>\<open>needle in hay\<close>, \<^verbatim>\<open>str.replace\<close> (for a non-empty pattern),
  \<^verbatim>\<open>str.split(sep)\<close> for a one-character separator, \<^verbatim>\<open>str.splitlines\<close>
  (on ASCII text), \<^verbatim>\<open>sep.join\<close> and \<^verbatim>\<open>int\<close> of a string of ASCII
  digits.
\<close>

definition nl :: string where
  "nl = [CHR 0x0A]"

fun contains :: "string \<Rightarrow> string \<Rightarrow> bool" where
  "contains needle [] = (needle = [])"
| "contains needle (x # xs) = (prefix needle (x # xs) \<or> contains needle xs)"

fun replace_go :: "string \<Rightarrow> string \<Rightarrow> nat \<Rightarrow> string \<Rightarrow> string" where
  "replace_go old new skip [] = []"
| "replace_go old new skip (x # xs) =
     (if 0 < skip then replace_go old new (skip - 1) xs
      else if prefix old (x # xs) then new @ replace_go old new (length old - 1) xs
      else x # replace_go old new 0 xs)"

definition replace :: "string \<Rightarrow> string \<Rightarrow> string \<Rightarrow> string" where
  "replace old new s = replace_go old new 0 s"



definition is_linebreak :: "char \<Rightarrow> bool" where
  "is_linebreak c \<longleftrightarrow>
     c \<in> set [CHR 0x0A, CHR 0x0D, CHR 0x0B, CHR 0x0C, CHR 0x1C, CHR 0x1D, CHR 0x1E]"

fun splitlines_go :: "bool \<Rightarrow> string \<Rightarrow> string \<Rightarrow> string list" where
  "splitlines_go after_cr cur [] = (if cur = [] then [] else [cur])"
| "splitlines_go after_cr cur (x # xs) =
     (if after_cr \<and> cur = [] \<and> x = CHR 0x0A then splitlines_go False [] xs
      else if is_linebreak x then cur # splitlines_go (x = CHR 0x0D) [] xs
      else splitlines_go False (cur @ [x]) xs)"

definition splitlines :: "string \<Rightarrow> string list" where
  "splitlines s = splitlines_go False [] s"

fun join :: "string \<Rightarrow> string list \<Rightarrow> string" where
  "join sep [] = []"
| "join sep [x] = x"
| "join sep (x # y # ys) = x @ sep @ join sep (y # ys)"

definition int_of_str :: "string \<Rightarrow> int" where
  "int_of_str s = foldl (\<lambda>n c. 10 * n + (int (of_char c) - 48)) 0 s"

section \<open>Character classes\<close>

text \<open>The classes \<^verbatim>\<open>\d\<close>, \<^verbatim>\<open>[0-9a-fA-F]\<close>, \<^verbatim>\<open>\w\<close>,
  \<^verbatim>\<open>\s\<close> and \<^verbatim>\<open>[\x00-\x1F\x7F]\<close> on ASCII characters.\<close>

definition is_digit :: "char \<Rightarrow> bool" where
  "is_digit c \<longleftrightarrow> c \<in> set ''0123456789''"

definition is_hex :: "char \<Rightarrow> bool" where
  "is_hex c \<longleftrightarrow> c \<in> set ''0123456789abcdefABCDEF''"

definition is_word :: "char \<Rightarrow> bool" where
  "is_word c \<longleftrightarrow>
     c \<in> set ''abcdefghijklmnopqrstuvwxyzABCDEFGHIJKLMNOPQRSTUVWXYZ0123456789_''"

definition is_space :: "char \<Rightarrow> bool" where
  "is_space c \<longleftrightarrow>
     c \<in> set [CHR 0x09, CHR 0x0A, CHR 0x0B, CHR 0x0C, CHR 0x0D, CHR 0x1C, CHR 0x1D, CHR 0x1E,
               CHR 0x1F, CHR 0x20]"

definition is_control :: "char \<Rightarrow> bool" where
  "is_control c \<longleftrightarrow> (of_char c :: nat) < 32 \<or> c = CHR 0x7F"

text \<open>\<^verbatim>\<open>str.strip()\<close>.\<close>

definition strip :: "string \<Rightarrow> string" where
  "strip s = rev (dropWhile is_space (rev (dropWhile is_space s)))"

section \<open>Regular expressions\<close>

text \<open>
  The patterns of the program use character classes, literals, greedy \<^verbatim>\<open>*\<close> and
  \<^verbatim>\<open>+\<close> on a class, sequence, alternation, groups and \<^verbatim>\<open>$\<close>. \<open>rmatch r s g\<close>
  lists, in the order in which Python's backtracking matcher tries them, the ways \<open>r\<close> matches
  at the start of \<open>s\<close>: what is left of \<open>s\<close> and the groups captured so far. The first of
  them is the match Python reports. \<^verbatim>\<open>$\<close> matches at the end of the string and
  before a newline that ends it.
\<close>

datatype rx =
    REps
  | RChar "char \<Rightarrow> bool"
  | RStar "char \<Rightarrow> bool"
  | RPlus "char \<Rightarrow> bool"
  | RSeq rx rx
  | RAlt rx rx
  | RGroup nat rx
  | REnd

type_synonym groups = "nat \<Rightarrow> string option"

primrec rmatch :: "rx \<Rightarrow> string \<Rightarrow> groups \<Rightarrow> (string \<times> groups) list" where
  "rmatch REps s g = [(s, g)]"
| "rmatch (RChar p) s g = (case s of [] \<Rightarrow> [] | x # xs \<Rightarrow> if p x then [(xs, g)] else [])"
| "rmatch (RStar p) s g = map (\<lambda>k. (drop k s, g)) (rev [0..<Suc (length (takeWhile p s))])"
| "rmatch (RPlus p) s g = map (\<lambda>k. (drop k s, g)) (rev [1..<Suc (length (takeWhile p s))])"
| "rmatch (RSeq a b) s g = concat (map (\<lambda>m. rmatch b (fst m) (snd m)) (rmatch a s g))"
| "rmatch (RAlt a b) s g = rmatch a s g @ rmatch b s g"
| "rmatch (RGroup n a) s g =
     map (\<lambda>m. (fst m, (snd m)(n \<mapsto> take (length s - length (fst m)) s))) (rmatch a s g)"
| "rmatch REnd s g = (if s = [] \<or> s = [CHR 0x0A] then [(s, g)] else [])"

definition lit :: "string \<Rightarrow> rx" where
  "lit s = foldr (\<lambda>c r. RSeq (RChar ((=) c)) r) s REps"

definition rseq :: "rx list \<Rightarrow> rx" where
  "rseq rs = foldr RSeq rs REps"

text \<open>\<^verbatim>\<open>pattern.match(s)\<close>, \<^verbatim>\<open>re.search(pattern, s)\<close> and
  \<^verbatim>\<open>re.sub(pattern, repl, s)\<close> for a pattern that matches no empty string (a match
  of length zero is passed over).\<close>

definition re_match :: "rx \<Rightarrow> string \<Rightarrow> groups option" where
  "re_match r s = (case rmatch r s Map.empty of [] \<Rightarrow> None | m # ms \<Rightarrow> Some (snd m))"

fun re_search :: "rx \<Rightarrow> string \<Rightarrow> groups option" where
  "re_search r [] = (case rmatch r [] Map.empty of [] \<Rightarrow> None | m # ms \<Rightarrow> Some (snd m))"
| "re_search r (x # xs) =
     (case rmatch r (x # xs) Map.empty of [] \<Rightarrow> re_search r xs | m # ms \<Rightarrow> Some (snd m))"

fun re_sub_go :: "rx \<Rightarrow> string \<Rightarrow> nat \<Rightarrow> string \<Rightarrow> string" where
  "re_sub_go r repl skip [] = []"
| "re_sub_go r repl skip (x # xs) =
     (if 0 < skip then re_sub_go r repl (skip - 1) xs
      else (case rmatch r (x # xs) Map.empty of
              [] \<Rightarrow> x # re_sub_go r repl 0 xs
            | m # ms \<Rightarrow>
                (if length (fst m) = length (x # xs) then x # re_sub_go r repl 0 xs
                 else repl @ re_sub_go r repl (length xs - length (fst m)) xs)))"

definition re_sub :: "rx \<Rightarrow> string \<Rightarrow> string \<Rightarrow> string" where
  "re_sub r repl s = re_sub_go r repl 0 s"

text \<open>\<^verbatim>\<open>match.group(n)\<close> of a group that took part in the match.\<close>

definition group :: "groups \<Rightarrow> nat \<Rightarrow> string" where
  "group g n = (case g n of Some s \<Rightarrow> s | None \<Rightarrow> [])"

section \<open>The Hioso parser (vendors/hioso/telnet\_service.py, \_parse\_onus)\<close>

text \<open>Line 76: \<^verbatim>\<open>--+ Press Enter Or Space To Continue --+[\b]*\<close>.\<close>

definition press_enter_banner :: rx where
  "press_enter_banner = rseq
     [RChar ((=) CHR ''-''), RPlus ((=) CHR ''-''),
      lit '' Press Enter Or Space To Continue '',
      RChar ((=) CHR ''-''), RPlus ((=) CHR ''-''), RStar ((=) CHR 0x08)]"

text \<open>Lines 80--91: the row grammar, ten groups separated by white space.\<close>

definition onu_pattern :: rx where
  "onu_pattern = rseq
     [RStar is_space,
      RGroup 1 (rseq [RPlus is_digit, RChar ((=) CHR ''/''), RPlus is_digit, RChar ((=) CHR '':''),
                      RPlus is_digit]), RPlus is_space,
      RGroup 2 (RPlus (\<lambda>c. is_hex c \<or> c \<in> set '':.-'')), RPlus is_space,
      RGroup 3 (RPlus is_word), RPlus is_space,
      RGroup 4 (RPlus is_digit), RPlus is_space,
      RGroup 5 (RPlus is_word), RPlus is_space,
      RGroup 6 (RPlus is_word), RPlus is_space,
      RGroup 7 (RPlus is_digit), RPlus is_space,
      RGroup 8 (RPlus is_word), RPlus is_space,
      RGroup 9 (RPlus is_digit), RPlus is_space,
      RGroup 10 (RPlus (\<lambda>c. c \<noteq> CHR 0x0A))]"

text \<open>
  Lines 95--124, the body of the loop for one line: control characters are removed, the line is
  stripped, an empty line and a line the grammar does not match give no record. The identifier
  is the MAC column without the characters that are not hexadecimal digits (line 116). The
  digit columns are converted with \<^verbatim>\<open>int\<close> (columns longer than the interpreter's
  limit on integer strings are outside the model).
\<close>

definition parse_line :: "string \<Rightarrow> onu_item option" where
  "parse_line raw_line =
     (let line = strip (re_sub (RChar is_control) [] raw_line)
      in if line = [] then None
         else (case re_match onu_pattern line of
                 None \<Rightarrow> None
               | Some m \<Rightarrow>
                   Some \<lparr>onu_ref.identifier' = re_sub (RChar (\<lambda>c. \<not> is_hex c)) [] (group m 2),
                         onu_ref.details =
                           [(''onuId'', JStr (group m 1)), (''onuMac'', JStr (group m 2)),
                            (''status'', JStr (group m 3)), (''ports'', JInt (int_of_str (group m 4))),
                            (''chipId'', JStr (group m 5)), (''version'', JStr (group m 6)),
                            (''flags'', JInt (int_of_str (group m 7))),
                            (''authMode'', JStr (group m 8)),
                            (''distance'', JInt (int_of_str (group m 9))),
                            (''time'', JStr (strip (group m 10)))],
                         onu_item.pon_interface = group m 1,
                         onu_item.vendor_name = ''hioso''\<rparr>))"

definition parse_onus :: "string \<Rightarrow> onu_item list" where
  "parse_onus raw_output =
     List.map_filter parse_line (splitlines (re_sub press_enter_banner nl raw_output))"

section \<open>SNMP walks and the instance index\<close>

text \<open>
  What \<^verbatim>\<open>walk_cmd\<close> yields for one subtree, in order: a batch of (OID string, printed
  value) pairs, a response flagged with an error indication or error status, or an exception
  (also one raised while the transport target is created).
\<close>

datatype walk_event = VarBinds "(string \<times> string) list" | WalkError | WalkRaise

text \<open>
  vendors/hsgq/snmp\_service.py line 38 and epon\_snmp\_service.py line 71:
  \<^verbatim>\<open>re.search(r'\.(\d+)$|(\d+)\.(?:0\.0|65535\.65535)$', oid_str)\<close>, then
  \<^verbatim>\<open>match.group(1) or match.group(2)\<close>.
\<close>

definition index_pattern :: rx where
  "index_pattern =
     RAlt (rseq [RChar ((=) CHR ''.''), RGroup 1 (RPlus is_digit), REnd])
          (rseq [RGroup 2 (RPlus is_digit), RChar ((=) CHR ''.''),
                 RAlt (lit ''0.0'') (lit ''65535.65535''), REnd])"

definition hsgq_onu_index :: "string \<Rightarrow> string option" where
  "hsgq_onu_index oid_str =
     (case re_search index_pattern oid_str of
        None \<Rightarrow> None
      | Some m \<Rightarrow> (case m 1 of Some i \<Rightarrow> Some i | None \<Rightarrow> m 2))"


text \<open>
  \<^verbatim>\<open>_snmp_walk\<close>, the same in the three services but for the index: the walk stops at
  the first error, an exception is caught, and the pairs seen so far are returned. A pair whose
  OID gives no index is passed over.
\<close>

definition walk_pair ::
  "(string \<Rightarrow> string option) \<Rightarrow> (string \<times> string) list \<Rightarrow> string \<times> string \<Rightarrow> (string \<times> string) list" where
  "walk_pair index results vb =
     (case index (fst vb) of Some onu_index \<Rightarrow> dict_set onu_index (snd vb) results | None \<Rightarrow> results)"

fun snmp_walk_go ::
  "(string \<Rightarrow> string option) \<Rightarrow> (string \<times> string) list \<Rightarrow> walk_event list \<Rightarrow> (string \<times> string) list" where
  "snmp_walk_go index results [] = results"
| "snmp_walk_go index results (VarBinds var_binds # rest) =
     snmp_walk_go index (foldl (walk_pair index) results var_binds) rest"
| "snmp_walk_go index results (WalkError # rest) = results"
| "snmp_walk_go index results (WalkRaise # rest) = results"

definition snmp_walk :: "(string \<Rightarrow> string option) \<Rightarrow> walk_event list \<Rightarrow> (string \<times> string) list" where
  "snmp_walk index events = snmp_walk_go index [] events"

text \<open>
  The fold of the per-field tables into per-index records (hsgq/snmp\_service.py lines 58--62,
  hioso/snmp\_service.py lines 57--61, hsgq/epon\_snmp\_service.py lines 101--105):
  \<^verbatim>\<open>onus_by_index[index][data_key] = value\<close>, a new index starting as
  \<^verbatim>\<open>{'onu_index': index}\<close>.
\<close>

definition dict_get :: "('k \<times> 'v) list \<Rightarrow> 'k \<Rightarrow> 'v option" where
  "dict_get d k = map_of d k"

definition put_field ::
  "string \<Rightarrow> (string \<times> (string \<times> string) list) list \<Rightarrow> string \<times> string \<Rightarrow>
   (string \<times> (string \<times> string) list) list" where
  "put_field data_key onus_by_index iv =
     (let index = fst iv;
          start = (case dict_get onus_by_index index of
                     None \<Rightarrow> [(''onu_index'', index)]
                   | Some data \<Rightarrow> data)
      in dict_set index (dict_set data_key (snd iv) start) onus_by_index)"

definition correlate ::
  "(string \<times> (string \<times> string) list) list \<Rightarrow> (string \<times> (string \<times> string) list) list" where
  "correlate snmp_data =
     foldl (\<lambda>onus_by_index kv. foldl (put_field (fst kv)) onus_by_index (snd kv)) [] snmp_data"

text \<open>The walks of one service: one per entry of its OID table, each for the subtree of the
  entry (\<open>walk\<close> is what the device answers for a subtree).\<close>

definition walk_all ::
  "(string \<Rightarrow> string option) \<Rightarrow> (string \<Rightarrow> walk_event list) \<Rightarrow> (string \<times> string) list \<Rightarrow>
   (string \<times> (string \<times> string) list) list" where
  "walk_all index walk oids =
     foldl (\<lambda>snmp_data kv. dict_set (fst kv) (snmp_walk index (walk (snd kv))) snmp_data) [] oids"

section \<open>The HSGQ EPON correlator\<close>

text \<open>
  hsgq/epon\_snmp\_service.py, \<^verbatim>\<open>get_onus\<close>, lines 113--159. An index without a MAC
  address, or whose cleaned MAC address is not twelve characters long, is skipped (lines
  119--130). \<open>centi\<close> stands for \<^verbatim>\<open>f"{float(x) / 100.0:.2f}"\<close>: the printed value,
  or \<^verbatim>\<open>None\<close> where \<^verbatim>\<open>float\<close> raises (the default \<^verbatim>\<open>0\<close> is passed as the string \<^verbatim>\<open>0\<close>).
\<close>

definition format_mac :: "string \<Rightarrow> string" where
  "format_mac cleaned_mac =
     join '':'' (map (\<lambda>i. take 2 (drop i cleaned_mac)) [0, 2, 4, 6, 8, 10])"

definition epon_power :: "(string \<Rightarrow> string option) \<Rightarrow> (string \<times> string) list \<Rightarrow> string \<times> string" where
  "epon_power centi data =
     (case (centi (case dict_get data ''tx_power'' of Some x \<Rightarrow> x | None \<Rightarrow> ''0''),
            centi (case dict_get data ''rx_power'' of Some x \<Rightarrow> x | None \<Rightarrow> ''0'')) of
        (Some tx, Some rx) \<Rightarrow> (tx @ '' dBm'', rx @ '' dBm'')
      | _ \<Rightarrow> (''N/A'', ''N/A''))"

definition epon_item ::
  "(string \<Rightarrow> string option) \<Rightarrow> string \<times> (string \<times> string) list \<Rightarrow> onu_item option" where
  "epon_item centi entry =
     (let index = fst entry; data = snd entry
      in (case dict_get data ''mac_address'' of
            None \<Rightarrow> None
          | Some raw_mac \<Rightarrow>
              if raw_mac = [] then None
              else
                let cleaned_mac = lower (replace '':'' [] (replace '' '' [] (replace ''0x'' [] raw_mac)))
                in if length cleaned_mac = 12 then
                     let formatted_mac = format_mac cleaned_mac;
                         power = epon_power centi data
                     in Some \<lparr>onu_ref.identifier' = formatted_mac,
                              onu_ref.details =
                                [(''onu_index'', JStr index),
                                 (''name'', JStr (case dict_get data ''name'' of
                                                    Some x \<Rightarrow> x | None \<Rightarrow> ''N/A'')),
                                 (''mac_address'', JStr formatted_mac),
                                 (''tx_power'', JStr (fst power)),
                                 (''rx_power'', JStr (snd power)),
                                 (''status'', JStr
                                    (case dict_get data ''status'' of
                                       None \<Rightarrow> ''Unknown''
                                     | Some s \<Rightarrow>
                                         if s = ''1'' then ''Online''
                                         else if s = ''2'' then ''Offline'' else ''Unknown'')),
                                 (''distance'', JStr ((case dict_get data ''distance'' of
                                                        Some x \<Rightarrow> x | None \<Rightarrow> ''N/A'') @ '' m''))],
                              onu_item.pon_interface = ''N/A'',
                              onu_item.vendor_name = ''hsgq_epon''\<rparr>
                   else None))"

definition hsgq_epon_get_onus ::
  "(string \<Rightarrow> string option) \<Rightarrow> (string \<Rightarrow> walk_event list) \<Rightarrow> (string \<times> string) list \<Rightarrow> fetch_dict" where
  "hsgq_epon_get_onus centi walk oids =
     (let final_onus = List.map_filter (epon_item centi)
                         (correlate (walk_all hsgq_onu_index walk oids))
      in \<lparr>error = None, count = Some (length final_onus), onus = Some final_onus\<rparr>)"

section \<open>Sample adapter inputs\<close>

text \<open>A row of \<^verbatim>\<open>show onu all\<close>, a row whose MAC column is a dash, and an EPON device
  that answers the MAC address walk with one instance and every other walk with an error.\<close>

definition sample_row :: string where
  "sample_row = ''1/1:3 98c7a4.5e30B8 Up 1 0x0 0x4853 0 Undef 12 2 hours''"

definition dash_row :: string where
  "dash_row = ''1/1:1 - Up 1 a b 0 c 1 x''"

definition sample_walk :: "string \<Rightarrow> walk_event list" where
  "sample_walk subtree =
     (if subtree = ''1.3.6.1.4.1.50224.3.3.2.1.7''
      then [VarBinds [(''1.3.6.1.4.1.50224.3.3.2.1.7.16777472'', ''0x98c7a45e30B8'')]]
      else [WalkError])"

definition sample_centi :: "string \<Rightarrow> string option" where
  "sample_centi s = (if s = ''0'' then Some ''0.00'' else None)"

chapter \<open>Properties\<close>

section \<open>Properties of the SNMP sync loop\<close>

lemma find_first_update_None:
  "find P rows = None \<Longrightarrow> first_update P f rows = rows"
  by (induction rows) (auto split: if_splits)

lemma length_first_update [simp]: "length (first_update P f rows) = length rows"
  by (induction rows) auto





lemma snmp_sync_loop_absent:
  "\<forall>it \<in> set items. query_first dev (onu_ref.identifier' it) (fst st) = None \<Longrightarrow>
   snmp_sync_loop dev clock k st items = st"
  by (induction items arbitrary: k st) (auto simp: snmp_sync_item_def split: prod.splits)







section \<open>The payloads of the two jobs\<close>

lemma upsert_item_count:
  "snd (snd (upsert_item f dev t (rows, p, n) it)) = Suc n"
  by (simp add: upsert_item_def Let_def split: option.splits)

lemma upsert_loop_count:
  "snd (snd (upsert_loop f dev c k st items)) = snd (snd st) + length items"
proof (induction items arbitrary: k st)
  case Nil
  then show ?case by simp
next
  case (Cons a items)
  obtain rows p n where st: "st = (rows, p, n)" by (cases st) auto
  show ?case using Cons.IH [of "Suc k" "upsert_item f dev (c k) st a"]
    by (simp add: st upsert_item_count)
qed

lemma find_None_first_update:
  "(\<And>r. P (f r) = P r) \<Longrightarrow> (find P (first_update Q f rows) = None) = (find P rows = None)"
  by (induction rows) auto

lemma query_first_None_update:
  "(query_first dev i (first_update Q (\<lambda>r. r\<lparr>details_snmp := x, last_seen := t\<rparr>) rows) = None) =
   (query_first dev i rows = None)"
  unfolding query_first_def
  by (rule find_None_first_update) (simp add: same_onu_def)

lemma snmp_sync_loop_count:
  "snd (snmp_sync_loop dev c k (rows, n) items) =
     n + length (filter (\<lambda>it. query_first dev (onu_ref.identifier' it) rows \<noteq> None) items)"
proof (induction items arbitrary: k rows n)
  case Nil
  then show ?case by simp
next
  case (Cons a items)
  show ?case
  proof (cases "query_first dev (onu_ref.identifier' a) rows")
    case None
    then show ?thesis using Cons.IH [of "Suc k" rows n]
      by (simp add: snmp_sync_item_def)
  next
    case (Some r)
    then show ?thesis
      using Cons.IH [of "Suc k" "first_update (same_onu dev (onu_ref.identifier' a))
                (\<lambda>r. r\<lparr>details_snmp := Some (onu_ref.details a), last_seen := c k\<rparr>) rows" "Suc n"]
      by (simp add: snmp_sync_item_def query_first_None_update)
  qed
qed



lemma interactive_store_payload: "\<exists>p. fst (interactive_store env d x dd) = Inr p"
  by (simp add: interactive_store_def Let_def split: option.splits)

lemma interactive_store_error_keeps:
  "fst (interactive_store env d x dd) = Inr (Error m) \<Longrightarrow> snd (interactive_store env d x dd) = d"
  by (simp add: interactive_store_def Let_def split: option.splits if_splits)

lemma interactive_try_payload: "\<exists>p. fst (interactive_try env d x v) = Inr p"
  by (simp add: interactive_try_def interactive_store_payload split: option.splits sum.splits)

lemma interactive_try_error_keeps:
  "fst (interactive_try env d x v) = Inr (Error m) \<Longrightarrow> snd (interactive_try env d x v) = d"
  by (simp add: interactive_try_def interactive_store_error_keeps split: option.splits sum.splits)

lemma snmp_store_payload: "\<exists>p. fst (snmp_store env d x l) = Inr p"
  by (simp add: snmp_store_def Let_def split: option.splits)

lemma snmp_store_error_keeps:
  "fst (snmp_store env d x l) = Inr (Error m) \<Longrightarrow> snd (snmp_store env d x l) = d"
  by (simp add: snmp_store_def Let_def split: option.splits if_splits)

lemma snmp_try_payload: "\<exists>p. fst (snmp_try env d x v) = Inr p"
  by (simp add: snmp_try_def Let_def snmp_store_payload split: sum.splits)

lemma snmp_try_error_keeps:
  "fst (snmp_try env d x v) = Inr (Error m) \<Longrightarrow> snd (snmp_try env d x v) = d"
  by (simp add: snmp_try_def Let_def snmp_store_error_keeps split: sum.splits if_splits)

lemma run_ssh_telnet_sync_error_keeps:
  "fst (run_ssh_telnet_sync env d k) = Inr (Error m) \<Longrightarrow> snd (run_ssh_telnet_sync env d k) = d"
  by (simp add: run_ssh_telnet_sync_def interactive_try_error_keeps split: option.splits)

lemma run_snmp_sync_error_keeps:
  "fst (run_snmp_sync env d k) = Inr (Error m) \<Longrightarrow> snd (run_snmp_sync env d k) = d"
  by (simp add: run_snmp_sync_def snmp_try_error_keeps split: option.splits)

lemma run_ssh_telnet_sync_payload:
  "\<forall>x. find (\<lambda>x. olt.id' x = k) (olt_rows d) = Some x \<longrightarrow> olt.vendor x \<noteq> None \<Longrightarrow>
   \<exists>p. fst (run_ssh_telnet_sync env d k) = Inr p"
  by (auto simp: run_ssh_telnet_sync_def interactive_try_payload split: option.splits)

lemma run_snmp_sync_payload:
  "\<forall>x. find (\<lambda>x. olt.id' x = k) (olt_rows d) = Some x \<longrightarrow> olt.vendor x \<noteq> None \<Longrightarrow>
   \<exists>p. fst (run_snmp_sync env d k) = Inr p"
  by (auto simp: run_snmp_sync_def snmp_try_payload split: option.splits)

text \<open>
  Claim C3, as the code has it. For a device id whose row is missing or has a vendor, both jobs
  return a payload and raise nothing, and whenever the payload is an error the database is what
  it was (nothing of the run is kept). In the interactive job an adapter that raises, one that
  returns \<^verbatim>\<open>None\<close>, an empty dictionary or one with the key
  \<^verbatim>\<open>"error"\<close> all give an error payload; a fetched list with a successful commit
  gives the message with the number of fetched records, and a failed commit an error payload.
  In the SNMP job an adapter that raises and an error-flagged EPON result give an error payload;
  an empty list gives the \<^emph>\<open>message\<close> "No ONUs found via SNMP or error in communication."
  and leaves the database alone; a non-empty list gives, after a successful commit, the message
  with the number of fetched records that had a row, and after a failed commit an error payload.
\<close>

theorem sync_jobs_payloads:
  assumes "\<forall>x. find (\<lambda>x. olt.id' x = k) (olt_rows d) = Some x \<longrightarrow> olt.vendor x \<noteq> None"
  shows
   "(\<exists>p. fst (run_ssh_telnet_sync env d k) = Inr p) \<and>
    (\<exists>p. fst (run_snmp_sync env d k) = Inr p) \<and>
    (\<forall>m. fst (run_ssh_telnet_sync env d k) = Inr (Error m) \<longrightarrow> snd (run_ssh_telnet_sync env d k) = d) \<and>
    (\<forall>m. fst (run_snmp_sync env d k) = Inr (Error m) \<longrightarrow> snd (run_snmp_sync env d k) = d) \<and>
    (\<forall>e. interactive_fetch env x (lower (vendor.name v)) = Some (Inl e) \<longrightarrow>
       interactive_try env d x v = (Inr (Error (exn_str e)), d)) \<and>
    (interactive_fetch env x (lower (vendor.name v)) = Some (Inr None) \<longrightarrow>
       (\<exists>m. interactive_try env d x v = (Inr (Error m), d))) \<and>
    (\<forall>dd. interactive_fetch env x (lower (vendor.name v)) = Some (Inr (Some dd)) \<and>
          (dict_empty dd \<or> error dd \<noteq> None) \<longrightarrow>
       (\<exists>m. interactive_try env d x v = (Inr (Error m), d))) \<and>
    (\<forall>dd l. interactive_fetch env x (lower (vendor.name v)) = Some (Inr (Some dd)) \<and>
          error dd = None \<and> onus dd = Some l \<and> commit_error env = None \<longrightarrow>
       interactive_try env d x v =
         (Inr (Message (''Successfully synced '' @ str_of_nat (length l) @ '' ONUs for OLT '' @ olt.ip x)),
          d\<lparr>onu_rows := interactive_sync (autoflush env) (olt.id' x) (now env) (onu_rows d) l\<rparr>)) \<and>
    (\<forall>dd l e. interactive_fetch env x (lower (vendor.name v)) = Some (Inr (Some dd)) \<and>
          error dd = None \<and> onus dd = Some l \<and> commit_error env = Some e \<longrightarrow>
       interactive_try env d x v = (Inr (Error (exn_str e)), d)) \<and>
    (\<forall>e. hioso_snmp env x od = Inl e \<longrightarrow> snmp_fetch env d x ''hioso'' od = Inl (Error (exn_str e))) \<and>
    (\<forall>e. hsgq_snmp env x od = Inl e \<and> olt_type x \<noteq> Some ''epon'' \<longrightarrow>
       snmp_fetch env d x ''hsgq'' od = Inl (Error (exn_str e))) \<and>
    (\<forall>e. hsgq_epon_snmp env x (load_oids env d) = Inl e \<and> olt_type x = Some ''epon'' \<longrightarrow>
       snmp_fetch env d x ''hsgq'' od = Inl (Error (exn_str e))) \<and>
    (\<forall>dd m. hsgq_epon_snmp env x (load_oids env d) = Inr (Some dd) \<and> error dd = Some m \<and>
          olt_type x = Some ''epon'' \<longrightarrow>
       snmp_fetch env d x ''hsgq'' od = Inl (Error m)) \<and>
    snmp_store env d x [] = (Inr (Message ''No ONUs found via SNMP or error in communication.''), d) \<and>
    (\<forall>l. l \<noteq> [] \<and> commit_error env = None \<longrightarrow>
       snmp_store env d x l =
         (Inr (Message (''Sync complete for OLT '' @ olt.ip x @ '' via SNMP. Updated '' @
            str_of_nat (length (filter (\<lambda>it. query_first (olt.id' x) (onu_ref.identifier' it) (onu_rows d) \<noteq> None) l)) @
            '' ONUs.'')),
          d\<lparr>onu_rows := fst (snmp_sync_loop (olt.id' x) (now env) 0 (onu_rows d, 0) l)\<rparr>)) \<and>
    (\<forall>l e. l \<noteq> [] \<and> commit_error env = Some e \<longrightarrow>
       snmp_store env d x l = (Inr (Error (exn_str e)), d))"
proof -
  have a: "\<exists>p. fst (run_ssh_telnet_sync env d k) = Inr p"
    using assms by (rule run_ssh_telnet_sync_payload)
  have b: "\<exists>p. fst (run_snmp_sync env d k) = Inr p"
    using assms by (rule run_snmp_sync_payload)
  have c: "\<forall>m. fst (run_ssh_telnet_sync env d k) = Inr (Error m) \<longrightarrow> snd (run_ssh_telnet_sync env d k) = d"
    by (simp add: run_ssh_telnet_sync_error_keeps)
  have c': "\<forall>m. fst (run_snmp_sync env d k) = Inr (Error m) \<longrightarrow> snd (run_snmp_sync env d k) = d"
    by (simp add: run_snmp_sync_error_keeps)
  have e: "\<forall>e. interactive_fetch env x (lower (vendor.name v)) = Some (Inl e) \<longrightarrow>
       interactive_try env d x v = (Inr (Error (exn_str e)), d)"
    by (simp add: interactive_try_def)
  have f: "interactive_fetch env x (lower (vendor.name v)) = Some (Inr None) \<longrightarrow>
       (\<exists>m. interactive_try env d x v = (Inr (Error m), d))"
    by (simp add: interactive_try_def)
  have g: "\<forall>dd. interactive_fetch env x (lower (vendor.name v)) = Some (Inr (Some dd)) \<and>
          (dict_empty dd \<or> error dd \<noteq> None) \<longrightarrow>
       (\<exists>m. interactive_try env d x v = (Inr (Error m), d))"
    by (auto simp: interactive_try_def interactive_store_def)
  have h: "\<forall>dd l. interactive_fetch env x (lower (vendor.name v)) = Some (Inr (Some dd)) \<and>
          error dd = None \<and> onus dd = Some l \<and> commit_error env = None \<longrightarrow>
       interactive_try env d x v =
         (Inr (Message (''Successfully synced '' @ str_of_nat (length l) @ '' ONUs for OLT '' @ olt.ip x)),
          d\<lparr>onu_rows := interactive_sync (autoflush env) (olt.id' x) (now env) (onu_rows d) l\<rparr>)"
    by (simp add: interactive_try_def interactive_store_def dict_empty_def Let_def
        upsert_loop_count interactive_sync_def del: str_of_nat.simps)
  have i: "\<forall>dd l e. interactive_fetch env x (lower (vendor.name v)) = Some (Inr (Some dd)) \<and>
          error dd = None \<and> onus dd = Some l \<and> commit_error env = Some e \<longrightarrow>
       interactive_try env d x v = (Inr (Error (exn_str e)), d)"
    by (simp add: interactive_try_def interactive_store_def dict_empty_def Let_def)
  have j: "\<forall>e. hioso_snmp env x od = Inl e \<longrightarrow> snmp_fetch env d x ''hioso'' od = Inl (Error (exn_str e))"
    by (simp add: snmp_fetch_def)
  have k: "\<forall>e. hsgq_snmp env x od = Inl e \<and> olt_type x \<noteq> Some ''epon'' \<longrightarrow>
       snmp_fetch env d x ''hsgq'' od = Inl (Error (exn_str e))"
    by (simp add: snmp_fetch_def)
  have l: "\<forall>e. hsgq_epon_snmp env x (load_oids env d) = Inl e \<and> olt_type x = Some ''epon'' \<longrightarrow>
       snmp_fetch env d x ''hsgq'' od = Inl (Error (exn_str e))"
    by (simp add: snmp_fetch_def)
  have m: "\<forall>dd m. hsgq_epon_snmp env x (load_oids env d) = Inr (Some dd) \<and> error dd = Some m \<and>
          olt_type x = Some ''epon'' \<longrightarrow>
       snmp_fetch env d x ''hsgq'' od = Inl (Error m)"
    by (simp add: snmp_fetch_def)
  have n: "snmp_store env d x [] = (Inr (Message ''No ONUs found via SNMP or error in communication.''), d)"
    by (simp add: snmp_store_def)
  have o1: "\<forall>l. l \<noteq> [] \<and> commit_error env = None \<longrightarrow>
       snmp_store env d x l =
         (Inr (Message (''Sync complete for OLT '' @ olt.ip x @ '' via SNMP. Updated '' @
            str_of_nat (length (filter (\<lambda>it. query_first (olt.id' x) (onu_ref.identifier' it) (onu_rows d) \<noteq> None) l)) @
            '' ONUs.'')),
          d\<lparr>onu_rows := fst (snmp_sync_loop (olt.id' x) (now env) 0 (onu_rows d, 0) l)\<rparr>)"
    by (simp add: snmp_store_def Let_def snmp_sync_loop_count del: str_of_nat.simps)
  have p: "\<forall>l e. l \<noteq> [] \<and> commit_error env = Some e \<longrightarrow>
       snmp_store env d x l = (Inr (Error (exn_str e)), d)"
    by (simp add: snmp_store_def Let_def)
  from a b c c' e f g h i j k l m n o1 p show ?thesis by blast
qed

text \<open>
  The claim as stated asks for an error payload on an empty adapter result. The SNMP job answers
  an empty list with a message payload.
\<close>

theorem sync_empty_snmp_result_is_message:
  "run_snmp_sync sample_env sample_db 1 =
     (Inr (Message ''No ONUs found via SNMP or error in communication.''), sample_db)"
  by (simp add: run_snmp_sync_def snmp_try_def snmp_fetch_def snmp_store_def sample_env_def
      sample_db_def sample_olt_def lower_def lower_char_def oids_dict_of_def)

theorem sync_jobs_payloads_witness:
  "find (\<lambda>x. olt.id' x = 1) (olt_rows sample_db) = Some sample_olt \<and>
   olt.vendor sample_olt \<noteq> None \<and>
   fst (run_ssh_telnet_sync sample_env sample_db 1) =
     Inr (Message ''Successfully synced 1 ONUs for OLT 10.0.0.1'') \<and>
   fst (run_snmp_sync sample_env sample_db 1) =
     Inr (Message ''No ONUs found via SNMP or error in communication.'')"
  using sync_jobs_payloads [of 1 sample_db sample_env sample_olt "\<lparr>vendor.id' = 1, name = ''Hioso''\<rparr>" "[]"]
  by (simp add: run_ssh_telnet_sync_def interactive_try_def interactive_fetch_def
      interactive_store_def dict_empty_def sample_env_def upsert_item_def query_first_def
      run_snmp_sync_def snmp_try_def snmp_fetch_def snmp_store_def
      sample_db_def sample_olt_def lower_def lower_char_def oids_dict_of_def Let_def)

section \<open>The OID catalog and the fallback table\<close>

text \<open>
  Claim C9, as the code has it. Only the HSGQ EPON adapter has a fallback table. For a device of
  vendor \<^verbatim>\<open>hsgq\<close> and model \<^verbatim>\<open>epon\<close>, the table the service loads is the
  hard-coded default whenever the catalog of (hsgq, epon) is empty, and the job goes on with
  what the adapter returns for that table, whatever the catalog held. For a device of any other
  model an empty catalog ends the job with the error "SNMP OIDs not found ...". A Hioso device
  of model \<^verbatim>\<open>epon\<close> with an empty catalog is handed the empty table as it is.
\<close>

theorem empty_catalog_fallback_epon_only:
  "(olt_type x = Some ''epon'' \<and> lower (vendor.name v) = ''hsgq'' \<longrightarrow>
      (get_oids_by_vendor_and_model d ''hsgq'' ''epon'' = [] \<longrightarrow> load_oids env d = get_fallback_oids) \<and>
      snmp_try env d x v =
        (case hsgq_epon_snmp env x (load_oids env d) of
           Inl e \<Rightarrow> (Inr (Error (exn_str e)), d)
         | Inr None \<Rightarrow> (Inr (Error (exn_str none_not_iterable)), d)
         | Inr (Some onu_data) \<Rightarrow>
             (case error onu_data of
                Some msg \<Rightarrow> (Inr (Error msg), d)
              | None \<Rightarrow>
                  snmp_store env d x
                    (map onu_ref.truncate (case onus onu_data of Some l \<Rightarrow> l | None \<Rightarrow> []))))) \<and>
   (olt_type x \<noteq> Some ''epon'' \<and>
    filter (\<lambda>r. vendor_id r = Some (vendor.id' v) \<and> model r = olt_type x) (oid_rows d) = [] \<longrightarrow>
      snmp_try env d x v =
        (Inr (Error (''SNMP OIDs not found for vendor: '' @ lower (vendor.name v) @
                     '' and model: '' @ str_of_opt (olt_type x))), d)) \<and>
   (olt_type x = Some ''epon'' \<and> lower (vendor.name v) = ''hioso'' \<and>
    filter (\<lambda>r. vendor_id r = Some (vendor.id' v) \<and> model r = olt_type x) (oid_rows d) = [] \<longrightarrow>
      snmp_try env d x v =
        (case hioso_snmp env x [] of
           Inl e \<Rightarrow> (Inr (Error (exn_str e)), d)
         | Inr l \<Rightarrow> snmp_store env d x l))"
proof -
  have a: "get_oids_by_vendor_and_model d ''hsgq'' ''epon'' = [] \<longrightarrow> load_oids env d = get_fallback_oids"
    by (simp add: load_oids_def split: option.splits)
  have b: "olt_type x = Some ''epon'' \<and> lower (vendor.name v) = ''hsgq'' \<longrightarrow>
      snmp_try env d x v =
        (case hsgq_epon_snmp env x (load_oids env d) of
           Inl e \<Rightarrow> (Inr (Error (exn_str e)), d)
         | Inr None \<Rightarrow> (Inr (Error (exn_str none_not_iterable)), d)
         | Inr (Some onu_data) \<Rightarrow>
             (case error onu_data of
                Some msg \<Rightarrow> (Inr (Error msg), d)
              | None \<Rightarrow>
                  snmp_store env d x
                    (map onu_ref.truncate (case onus onu_data of Some l \<Rightarrow> l | None \<Rightarrow> []))))"
    by (simp add: snmp_try_def snmp_fetch_def Let_def split: sum.splits option.splits)
  have c: "olt_type x \<noteq> Some ''epon'' \<and>
    filter (\<lambda>r. vendor_id r = Some (vendor.id' v) \<and> model r = olt_type x) (oid_rows d) = [] \<longrightarrow>
      snmp_try env d x v =
        (Inr (Error (''SNMP OIDs not found for vendor: '' @ lower (vendor.name v) @
                     '' and model: '' @ str_of_opt (olt_type x))), d)"
    by (simp add: snmp_try_def Let_def)
  have e: "olt_type x = Some ''epon'' \<and> lower (vendor.name v) = ''hioso'' \<and>
    filter (\<lambda>r. vendor_id r = Some (vendor.id' v) \<and> model r = olt_type x) (oid_rows d) = [] \<longrightarrow>
      snmp_try env d x v =
        (case hioso_snmp env x [] of
           Inl e \<Rightarrow> (Inr (Error (exn_str e)), d)
         | Inr l \<Rightarrow> snmp_store env d x l)"
  proof (intro impI, elim conjE)
    assume t: "olt_type x = Some ''epon''" and h: "lower (vendor.name v) = ''hioso''"
      and f: "filter (\<lambda>r. vendor_id r = Some (vendor.id' v) \<and> model r = olt_type x) (oid_rows d) = []"
    have "snmp_try env d x v =
            (case snmp_fetch env d x ''hioso'' [] of
               Inl p \<Rightarrow> (Inr p, d)
             | Inr l \<Rightarrow> snmp_store env d x l)"
      by (simp only: snmp_try_def Let_def f h) (simp add: t oids_dict_of_def)
    then show "snmp_try env d x v =
        (case hioso_snmp env x [] of
           Inl e \<Rightarrow> (Inr (Error (exn_str e)), d)
         | Inr l \<Rightarrow> snmp_store env d x l)"
      by (simp add: snmp_fetch_def split: sum.splits)
  qed
  from a b c e show ?thesis by blast
qed

text \<open>
  The claim as stated promises the fallback for every device. An HSGQ GPON device with an
  empty catalog gets the error payload.
\<close>

theorem empty_catalog_gpon_fails:
  "run_snmp_sync sample_hsgq_env sample_hsgq_db 2 =
     (Inr (Error ''SNMP OIDs not found for vendor: hsgq and model: gpon''), sample_hsgq_db)"
  by (simp add: run_snmp_sync_def snmp_try_def sample_hsgq_db_def sample_hsgq_def
      lower_def lower_char_def str_of_opt_def)

theorem empty_catalog_fallback_epon_only_witness:
  "get_oids_by_vendor_and_model sample_hsgq_db ''hsgq'' ''epon'' = [] \<and>
   load_oids sample_hsgq_env sample_hsgq_db = get_fallback_oids \<and>
   snmp_try sample_hsgq_env sample_hsgq_db
     \<lparr>olt.id' = 3, ip = ''10.0.0.3'', olt_type = Some ''epon'', vendor = Some sample_hsgq\<rparr> sample_hsgq =
     (Inr (Message ''No ONUs found via SNMP or error in communication.''), sample_hsgq_db) \<and>
   snmp_try sample_hsgq_env sample_hsgq_db
     \<lparr>olt.id' = 2, ip = ''10.0.0.2'', olt_type = Some ''gpon'', vendor = Some sample_hsgq\<rparr> sample_hsgq =
     (Inr (Error ''SNMP OIDs not found for vendor: hsgq and model: gpon''), sample_hsgq_db)"
  using
    empty_catalog_fallback_epon_only [of
      "\<lparr>olt.id' = 3, ip = ''10.0.0.3'', olt_type = Some ''epon'', vendor = Some sample_hsgq\<rparr>"
      sample_hsgq sample_hsgq_db sample_hsgq_env]
    empty_catalog_fallback_epon_only [of
      "\<lparr>olt.id' = 2, ip = ''10.0.0.2'', olt_type = Some ''gpon'', vendor = Some sample_hsgq\<rparr>"
      sample_hsgq sample_hsgq_db sample_hsgq_env]
  by (simp add: get_oids_by_vendor_and_model_def sample_hsgq_db_def sample_hsgq_def
      sample_hsgq_env_def lower_def lower_char_def str_of_opt_def snmp_store_def)

section \<open>The interactive sync: upsert and idempotence\<close>




lemma first_update_twice:
  "(\<And>r. P r \<Longrightarrow> P (g r)) \<Longrightarrow>
   first_update P f (first_update P g rows) = first_update P (\<lambda>r. f (g r)) rows"
  by (induction rows) auto










lemma same_onu_upd [simp]:
  "same_onu dev x (r\<lparr>onu.details := d, last_seen := t\<rparr>) = same_onu dev x r"
  "same_onu dev x (r\<lparr>onu.details := d\<rparr>) = same_onu dev x r"
  "same_onu dev x (forget_seen r) = same_onu dev x r"
  by (simp_all add: same_onu_def forget_seen_def)








lemma committed_simp [simp]: "committed (R, P, n) = R @ P"
  by (simp add: committed_def)













section \<open>Identifiers of emitted records\<close>

lemma re_sub_go_class: "re_sub_go (RChar p) [] 0 s = filter (\<lambda>c. \<not> p c) s"
  by (induction s) auto

lemma re_sub_class: "re_sub (RChar p) [] s = filter (\<lambda>c. \<not> p c) s"
  by (simp add: re_sub_def re_sub_go_class)

lemma parse_line_hex:
  assumes "parse_line line = Some r"
  shows "\<forall>c\<in>set (onu_ref.identifier' r). is_hex c"
  using assms
  by (auto simp: parse_line_def Let_def re_sub_class split: if_splits option.splits)

lemma replace_go_char: "c \<notin> set (replace_go [c] [] 0 s)"
  by (induction s) auto

lemma replace_char: "c \<notin> set (replace [c] [] s)"
  by (simp add: replace_def replace_go_char)

lemma lower_char_idem: "lower_char (lower_char c) = lower_char c"
  by (auto simp: lower_char_def split: option.splits if_splits)

lemma lower_char_colon: "lower_char c = CHR '':'' \<Longrightarrow> c = CHR '':''"
  by (auto simp: lower_char_def split: option.splits if_splits)

lemma length_12:
  assumes "length (m :: 'a list) = 12"
  shows "\<exists>a b c d e f g h i j k l. m = [a, b, c, d, e, f, g, h, i, j, k, l]"
proof -
  have "length m = Suc (Suc (Suc (Suc (Suc (Suc (Suc (Suc (Suc (Suc (Suc (Suc 0)))))))))))"
    using assms by simp
  thus ?thesis
    by (auto simp: length_Suc_conv)
qed

lemma upt_17: "[0..<17] = [0, 1, 2, 3, 4, 5, 6, 7, 8, 9, 10, 11, 12, 13, 14, 15, 16 :: nat]"
  by (simp add: upt_conv_Cons)

lemma all_less_17:
  "(\<forall>n<(17::nat). P n) = list_all P [0, 1, 2, 3, 4, 5, 6, 7, 8, 9, 10, 11, 12, 13, 14, 15, 16]"
proof -
  have "(\<forall>n<(17::nat). P n) = list_all P [0..<17]"
    by (auto simp: list_all_iff)
  thus ?thesis
    by (simp only: upt_17)
qed

lemma format_mac_shape:
  assumes "length m = 12" and "CHR '':'' \<notin> set m"
  shows "length (format_mac m) = 17 \<and> (\<forall>i<17. (format_mac m ! i = CHR '':'') = (i mod 3 = 2))"
proof -
  obtain a b c d e f g h i j k l where m: "m = [a, b, c, d, e, f, g, h, i, j, k, l]"
    using length_12 [OF assms(1)] by blast
  have "format_mac m = [a, b, CHR '':'', c, d, CHR '':'', e, f, CHR '':'', g, h, CHR '':'', i, j,
                        CHR '':'', k, l]"
    by (simp add: m format_mac_def)
  thus ?thesis
    using assms(2) unfolding m
    by (auto simp: all_less_17)
qed

lemma lower_idem: "lower (lower s) = lower s"
  by (simp add: lower_def lower_char_idem)

lemma join_map_lower: "lower (join sep xs) = join (lower sep) (map lower xs)"
  by (induction sep xs rule: join.induct) (simp_all add: lower_def)

lemma lower_char_of_colon: "lower_char CHR '':'' = CHR '':''"
  by (simp add: lower_char_def)

lemma format_mac_lower: "lower (format_mac (lower s)) = format_mac (lower s)"
  by (simp add: format_mac_def join_map_lower)
     (simp add: lower_def take_map drop_map lower_char_idem lower_char_of_colon)

lemma epon_item_identifier:
  assumes "epon_item centi entry = Some r"
  shows "length (onu_ref.identifier' r) = 17
       \<and> (\<forall>i<17. (onu_ref.identifier' r ! i = CHR '':'') = (i mod 3 = 2))
       \<and> lower (onu_ref.identifier' r) = onu_ref.identifier' r"
proof -
  obtain raw_mac where raw: "dict_get (snd entry) ''mac_address'' = Some raw_mac"
    using assms by (auto simp: epon_item_def Let_def split: option.splits)
  define m where "m = lower (replace '':'' [] (replace '' '' [] (replace ''0x'' [] raw_mac)))"
  have len: "length m = 12" and r: "onu_ref.identifier' r = format_mac m"
    using assms raw
    by (auto simp: epon_item_def Let_def m_def split: if_splits)
  have "CHR '':'' \<notin> set m"
    unfolding m_def lower_def using replace_char [of "CHR '':''"] lower_char_colon
    by (metis (no_types, lifting) imageE list.set_map)
  with len have "length (format_mac m) = 17
       \<and> (\<forall>i<17. (format_mac m ! i = CHR '':'') = (i mod 3 = 2))"
    by (rule format_mac_shape)
  moreover have "lower (format_mac m) = format_mac m"
    unfolding m_def by (rule format_mac_lower)
  ultimately show ?thesis
    by (simp add: r)
qed

lemma epon_item_skips:
  "dict_get data ''mac_address'' = None \<or> dict_get data ''mac_address'' = Some []
   \<or> (\<exists>raw. dict_get data ''mac_address'' = Some raw
        \<and> length (replace '':'' [] (replace '' '' [] (replace ''0x'' [] raw))) \<noteq> 12)
   \<Longrightarrow> epon_item centi (index, data) = None"
  by (auto simp: epon_item_def Let_def lower_def)

lemma set_map_filter: "set (List.map_filter f xs) = {y. \<exists>x\<in>set xs. f x = Some y}"
  by (induction xs) (auto simp: List.map_filter_simps split: option.splits)

text \<open>
  What the two adapters do with the identifier. Every record of the Hioso parser has as
  identifier the hexadecimal digits of the MAC column of its row, in the order and letter case
  printed. The HSGQ EPON correlator returns a list in which every identifier has 17 characters,
  colons exactly at the positions 2, 5, 8, 11 and 14, and no upper-case letter; an index without
  a MAC address, with an empty one, or whose cleaned MAC address is not twelve characters long
  gives no record.
\<close>

lemma emitted_identifiers:
  "(\<forall>r\<in>set (parse_onus raw_output). \<forall>c\<in>set (onu_ref.identifier' r). is_hex c) \<and>
   (re_match onu_pattern (strip (re_sub (RChar is_control) [] line)) = None \<longrightarrow>
      parse_line line = None) \<and>
   (\<exists>l. onus (hsgq_epon_get_onus centi walk oids) = Some l \<and>
        count (hsgq_epon_get_onus centi walk oids) = Some (length l) \<and>
        (\<forall>r\<in>set l. length (onu_ref.identifier' r) = 17 \<and>
           (\<forall>i<17. (onu_ref.identifier' r ! i = CHR '':'') = (i mod 3 = 2)) \<and>
           lower (onu_ref.identifier' r) = onu_ref.identifier' r)) \<and>
   (dict_get data ''mac_address'' = None \<or> dict_get data ''mac_address'' = Some [] \<or>
    (\<exists>raw. dict_get data ''mac_address'' = Some raw \<and>
        length (replace '':'' [] (replace '' '' [] (replace ''0x'' [] raw))) \<noteq> 12) \<longrightarrow>
      epon_item centi (index, data) = None)"
proof -
  have a: "\<forall>r\<in>set (parse_onus raw_output). \<forall>c\<in>set (onu_ref.identifier' r). is_hex c"
    using parse_line_hex by (auto simp: parse_onus_def set_map_filter)
  have b: "re_match onu_pattern (strip (re_sub (RChar is_control) [] line)) = None \<longrightarrow>
      parse_line line = None"
    by (simp add: parse_line_def Let_def)
  have c: "\<exists>l. onus (hsgq_epon_get_onus centi walk oids) = Some l \<and>
        count (hsgq_epon_get_onus centi walk oids) = Some (length l) \<and>
        (\<forall>r\<in>set l. length (onu_ref.identifier' r) = 17 \<and>
           (\<forall>i<17. (onu_ref.identifier' r ! i = CHR '':'') = (i mod 3 = 2)) \<and>
           lower (onu_ref.identifier' r) = onu_ref.identifier' r)"
    using epon_item_identifier
    by (auto simp: hsgq_epon_get_onus_def Let_def set_map_filter simp del: all_simps)
  have d: "dict_get data ''mac_address'' = None \<or> dict_get data ''mac_address'' = Some [] \<or>
    (\<exists>raw. dict_get data ''mac_address'' = Some raw \<and>
        length (replace '':'' [] (replace '' '' [] (replace ''0x'' [] raw))) \<noteq> 12) \<longrightarrow>
      epon_item centi (index, data) = None"
    using epon_item_skips by blast
  from a b c d show ?thesis
    by blast
qed

lemma parse_line_identifier:
  assumes "parse_line line = Some r"
  shows "\<exists>m. re_match onu_pattern (strip (re_sub (RChar is_control) [] line)) = Some m \<and>
           onu_ref.identifier' r = filter is_hex (group m 2) \<and>
           onu_item.pon_interface r = group m 1"
  using assms
  by (auto simp: parse_line_def Let_def re_sub_class split: if_splits option.splits)

text \<open>
  Claim C4. The Hioso parser emits a record for a row that has no recognizable identifier: the
  row grammar accepts a MAC column made of separators only, and the identifier, which is that
  column without its non-hexadecimal characters, is then empty. For the row
  \<^verbatim>\<open>1/1:1 - Up 1 a b 0 c 1 x\<close> the parser returns one record with the identifier
  \<^verbatim>\<open>''\<close>, where the claim has no record. The parser also keeps the letter case the
  device printed (\<^verbatim>\<open>98c7a4.5e30B8\<close> gives \<^verbatim>\<open>98c7a45e30B8\<close>). The HSGQ EPON
  correlator, in contrast, skips an index whose MAC address is missing, empty or invalid.
\<close>

theorem hioso_row_without_hex_digits:
  "map (\<lambda>r. (onu_ref.identifier' r, onu_item.pon_interface r)) (parse_onus dash_row) =
     [([], ''1/1:1'')] \<and>
   map onu_ref.identifier' (parse_onus sample_row) = [''98c7a45e30B8'']"
  by (simp add: parse_onus_def parse_line_def dash_row_def sample_row_def re_sub_def re_match_def
      press_enter_banner_def onu_pattern_def rseq_def lit_def nl_def splitlines_def strip_def
      is_linebreak_def is_control_def is_space_def is_digit_def is_hex_def is_word_def
      List.map_filter_simps group_def Let_def)

section \<open>The instance index\<close>

















































end
